theory Spec2Isabelle
  imports Complex_Main "HOL-Library.Sublist" "HOL-Library.Word"
begin

section \<open>Python values, errors and string helpers\<close>

text \<open>
  The library passes JSON-like payloads and pydantic model instances around. A payload
  is a \<open>pyval\<close>: the JSON scalars, byte strings, lists, dicts (association lists, in
  insertion order) and instances of the pydantic classes of \<open>types.py\<close>, an instance being
  its class and its attribute values.
\<close>

datatype pycls =
  Blob | Part | Content | File | Image | FunctionResponse
  | LiveClientContent | LiveClientRealtimeInput | LiveClientToolResponse

datatype pyval =
  PNone
  | PBool bool
  | PInt int
  | PFloat rat
  | PStr string
  | PBytes "8 word list"
  | PList "pyval list"
  | PDict "(string \<times> pyval) list"
  | PObj pycls "(string \<times> pyval) list"

text \<open>
  Exceptions are values. A \<open>ValueError\<close> or \<open>RuntimeError\<close> with a fixed message carries
  the message; the messages built by f-strings carry the values they format.
\<close>

datatype error =
  ValueError string
  | InvalidHttpOptions
    \<comment> \<open>\<open>ValueError(f'Invalid http_options: {e}')\<close>\<close>
  | UnsupportedInput pyval
    \<comment> \<open>\<open>ValueError(f'Unsupported input type "{type(input)}" or input content "{input}"')\<close>\<close>
  | RuntimeError string
  | OperationTimedOut pyval pyval
    \<comment> \<open>\<open>RuntimeError(f'Operation {name} timed out.\n{operation}')\<close>\<close>
  | OperationFailed pyval pyval pyval
    \<comment> \<open>\<open>RuntimeError(f'Operation {name} failed with error: {error}.\n{operation}')\<close>\<close>
  | ValidationError
    \<comment> \<open>\<open>pydantic.ValidationError\<close>\<close>
  | JSONDecodeError string
  | UnicodeDecodeError
  | KeyError string
  | IndexError
  | TypeError
  | AttributeError
  | ExternalError string
    \<comment> \<open>an exception raised by a collaborator (transport, google.auth)\<close>

text \<open>Python's \<open>t in s\<close> on strings: \<open>t\<close> occurs in \<open>s\<close> as a contiguous substring.\<close>

fun str_contains :: "string \<Rightarrow> string \<Rightarrow> bool" where
  "str_contains [] t = (t = [])"
| "str_contains (c # s) t = (prefix t (c # s) \<or> str_contains s t)"


text \<open>\<open>str.lower()\<close> on ASCII text.\<close>

definition lower_chr :: "char \<Rightarrow> char" where
  "lower_chr c =
     (let n = (of_char c :: nat) in if 65 \<le> n \<and> n \<le> 90 then char_of (n + 32) else c)"

definition lower :: "string \<Rightarrow> string" where
  "lower s = map lower_chr s"

text \<open>Truthiness of an \<open>Optional[str]\<close>: \<open>None\<close> and \<open>''\<close> are false.\<close>

fun truthy_str :: "string option \<Rightarrow> bool" where
  "truthy_str None = False"
| "truthy_str (Some s) = (s \<noteq> [])"

text \<open>\<open>a or b\<close> on two \<open>Optional[str]\<close> values.\<close>

definition str_or :: "string option \<Rightarrow> string option \<Rightarrow> string option" where
  "str_or a b = (if truthy_str a then a else b)"

text \<open>\<open>d.get(k)\<close> and \<open>k in d\<close> on a dict.\<close>

definition dict_get :: "(string \<times> pyval) list \<Rightarrow> string \<Rightarrow> pyval" where
  "dict_get d k = (case map_of d k of None \<Rightarrow> PNone | Some v \<Rightarrow> v)"

definition has_key :: "(string \<times> pyval) list \<Rightarrow> string \<Rightarrow> bool" where
  "has_key d k = (map_of d k \<noteq> None)"

text \<open>Truthiness of a Python value.\<close>

fun truthy :: "pyval \<Rightarrow> bool" where
  "truthy PNone = False"
| "truthy (PBool b) = b"
| "truthy (PInt i) = (i \<noteq> 0)"
| "truthy (PFloat r) = (r \<noteq> 0)"
| "truthy (PStr s) = (s \<noteq> [])"
| "truthy (PBytes bs) = (bs \<noteq> [])"
| "truthy (PList xs) = (xs \<noteq> [])"
| "truthy (PDict d) = (d \<noteq> [])"
| "truthy (PObj c fs) = True"

text \<open>\<open>v == True\<close>: the numbers equal to 1 compare equal to \<open>True\<close>.\<close>

fun eq_True :: "pyval \<Rightarrow> bool" where
  "eq_True (PBool b) = b"
| "eq_True (PInt i) = (i = 1)"
| "eq_True (PFloat r) = (r = 1)"
| "eq_True v = False"

text \<open>\<open>obj.get(key)\<close>: only a dict has the method.\<close>

fun py_get :: "pyval \<Rightarrow> string \<Rightarrow> error + pyval" where
  "py_get (PDict d) k = Inr (dict_get d k)"
| "py_get v k = Inl AttributeError"

section \<open>Transport options (\<open>_api_client.py\<close>)\<close>

text \<open>
  \<open>types.HttpOptions\<close>: every field is optional. \<open>timeout\<close> is in milliseconds.
\<close>

record http_options =
  base_url :: "string option"
  api_version :: "string option"
  headers :: "(string \<rightharpoonup> string) option"
  timeout :: "int option"

definition HttpOptions :: http_options where
  "HttpOptions = \<lparr>base_url = None, api_version = None, headers = None, timeout = None\<rparr>"

text \<open>
  The identity token \<open>f'{library_label} {language_label}'\<close>. The library version
  (\<open>version.__version__\<close>) and the interpreter version (\<open>sys.version.split()[0]\<close>) are
  parameters.
\<close>

definition version_header_value :: "string \<Rightarrow> string \<Rightarrow> string" where
  "version_header_value lib_version py_version =
     (''google-genai-sdk/'' @ lib_version) @ '' '' @ (''gl-python/'' @ py_version)"

definition append_one :: "string \<Rightarrow> string \<Rightarrow> (string \<rightharpoonup> string) \<Rightarrow> (string \<rightharpoonup> string)" where
  "append_one key vhv hs =
     (case hs key of
        Some old \<Rightarrow> if \<not> str_contains old vhv then hs(key \<mapsto> old @ '' '' @ vhv) else hs
      | None \<Rightarrow> hs(key \<mapsto> vhv))"

definition append_library_version_headers ::
  "string \<Rightarrow> (string \<rightharpoonup> string) \<Rightarrow> (string \<rightharpoonup> string)" where
  "append_library_version_headers vhv hs =
     append_one ''x-goog-api-client'' vhv (append_one ''user-agent'' vhv hs)"

text \<open>\<open>copy_option.headers or {}\<close>\<close>

definition headers_or_empty :: "http_options \<Rightarrow> (string \<rightharpoonup> string)" where
  "headers_or_empty opts = (case headers opts of None \<Rightarrow> Map.empty | Some hs \<Rightarrow> hs)"

text \<open>
  One round of the loop over \<open>HttpOptions.model_fields\<close>: the patch's value when it is
  not \<open>None\<close>, the base's value otherwise.
\<close>

definition patch_field :: "'a option \<Rightarrow> 'a option \<Rightarrow> 'a option" where
  "patch_field patch_value option_value =
     (case patch_value of Some v \<Rightarrow> Some v | None \<Rightarrow> option_value)"

definition patch_http_options :: "string \<Rightarrow> http_options \<Rightarrow> http_options \<Rightarrow> http_options" where
  "patch_http_options vhv options patch_options =
     (let options_headers = headers_or_empty options;
          patch_options_headers = headers_or_empty patch_options;
          merged = options_headers ++ patch_options_headers
      in \<lparr>base_url = patch_field (base_url patch_options) (base_url options),
          api_version = patch_field (api_version patch_options) (api_version options),
          headers = Some (append_library_version_headers vhv merged),
          timeout = patch_field (timeout patch_options) (timeout options)\<rparr>)"


section \<open>Client construction and request building (\<open>_api_client.py\<close>)\<close>

text \<open>
  \<open>google.auth.credentials.Credentials\<close>, as far as the client reads it. An instance is
  always truthy.
\<close>

record credentials =
  token :: "string option"
  expired :: bool
  quota_project_id :: "string option"

record api_client =
  vertexai :: "bool option"
  modelgarden :: "bool option"
  project :: "string option"
  location :: "string option"
  api_key :: "string option"
  client_credentials :: "credentials option"
  client_http_options :: http_options

text \<open>The \<open>http_options\<close> argument: absent, a dict, or an \<open>HttpOptions\<close> instance.\<close>

datatype http_options_arg =
  NoOptions
  | OptionsDict "(string \<times> pyval) list"
  | OptionsObj http_options

text \<open>\<open>if http_options:\<close> An empty dict is falsy, an instance is truthy.\<close>

fun truthy_options :: "http_options_arg \<Rightarrow> bool" where
  "truthy_options NoOptions = False"
| "truthy_options (OptionsDict d) = (d \<noteq> [])"
| "truthy_options (OptionsObj opts) = True"

text \<open>\<open>os.environ.get(name, '0').lower() in ['true', '1']\<close>\<close>

definition env_flag :: "(string \<rightharpoonup> string) \<Rightarrow> string \<Rightarrow> bool" where
  "env_flag env name =
     (lower (case env name of None \<Rightarrow> ''0'' | Some v \<Rightarrow> v) \<in> set [''true'', ''1''])"

text \<open>
  \<open>_load_auth\<close>. The outcome of \<open>google.auth.default(scopes=...)\<close>, the credentials and
  the ambient project id or an exception, is the parameter \<open>auth_default\<close>.
\<close>

definition load_auth ::
  "(error + credentials \<times> string option) \<Rightarrow> string option
     \<Rightarrow> error + credentials \<times> string option" where
  "load_auth auth_default project0 =
     (case auth_default of
        Inl e \<Rightarrow> Inl e
      | Inr (creds, loaded_project_id) \<Rightarrow>
          (let project1 = (if \<not> truthy_str project0 then loaded_project_id else project0)
           in if \<not> truthy_str project1
              then Inl (ValueError
                ''Could not resolve project using application default credentials.'')
              else Inr (creds, project1)))"

text \<open>The validation of the \<open>http_options\<close> argument at the top of \<open>__init__\<close>.\<close>

definition validate_http_options ::
  "((string \<times> pyval) list \<Rightarrow> http_options option) \<Rightarrow> http_options_arg
     \<Rightarrow> error + http_options" where
  "validate_http_options model_validate arg =
     (case arg of
        OptionsDict d \<Rightarrow>
          (case model_validate d of None \<Rightarrow> Inl InvalidHttpOptions | Some opts \<Rightarrow> Inr opts)
      | OptionsObj opts \<Rightarrow> Inr opts
      | NoOptions \<Rightarrow> Inr HttpOptions)"

text \<open>
  The precedence rules of the cloud personality between explicit and environment
  values (the \<open>if credentials: ... elif ...\<close> chain).
\<close>

definition vertex_precedence ::
  "credentials option \<Rightarrow> string option \<Rightarrow> string option \<Rightarrow> string option
     \<Rightarrow> string option \<Rightarrow> string option \<Rightarrow> string option
     \<Rightarrow> api_client \<Rightarrow> api_client" where
  "vertex_precedence creds api_key0 project0 location0 env_project env_location env_api_key c =
     (if creds \<noteq> None then c\<lparr>api_key := None\<rparr>
      else if (truthy_str env_location \<or> truthy_str env_project) \<and> truthy_str api_key0
        then c\<lparr>project := None, location := None\<rparr>
      else if (truthy_str project0 \<or> truthy_str location0) \<and> truthy_str env_api_key
        then c\<lparr>api_key := None\<rparr>
      else if (truthy_str env_location \<or> truthy_str env_project) \<and> truthy_str env_api_key
        then c\<lparr>api_key := None\<rparr>
      else c)"

text \<open>\<open>f'{x}'\<close> of an \<open>Optional[str]\<close>.\<close>

definition fmt :: "string option \<Rightarrow> string" where
  "fmt x = (case x of None \<Rightarrow> ''None'' | Some s \<Rightarrow> s)"

text \<open>The cloud branch of \<open>__init__\<close>, from the precedence rules to the API version.\<close>

definition init_vertex ::
  "(error + credentials \<times> string option) \<Rightarrow> credentials option \<Rightarrow> string option
     \<Rightarrow> string option \<Rightarrow> string option \<Rightarrow> string option \<Rightarrow> string option
     \<Rightarrow> string option \<Rightarrow> api_client \<Rightarrow> error + api_client" where
  "init_vertex auth_default creds api_key0 project0 location0
       env_project env_location env_api_key c0 =
     (let c1 = vertex_precedence creds api_key0 project0 location0
                 env_project env_location env_api_key c0;
          loaded =
            (if \<not> truthy_str (project c1) \<and> \<not> truthy_str (api_key c1)
             then (case load_auth auth_default None of
                     Inl e \<Rightarrow> Inl e
                   | Inr (loaded_creds, loaded_project) \<Rightarrow>
                       Inr (c1\<lparr>project := loaded_project,
                               client_credentials :=
                                 (if client_credentials c1 = None then Some loaded_creds
                                  else client_credentials c1)\<rparr>))
             else Inr c1)
      in case loaded of
           Inl e \<Rightarrow> Inl e
         | Inr c2 \<Rightarrow>
             if \<not> ((truthy_str (project c2) \<and> truthy_str (location c2))
                    \<or> truthy_str (api_key c2))
             then Inl (ValueError
               ''Project and location or API key must be set when using the Vertex AI API.'')
             else
               (let url =
                      (if truthy_str (api_key c2) \<or> location c2 = Some ''global''
                       then ''https://aiplatform.googleapis.com/''
                       else ''https://'' @ fmt (location c2) @ ''-aiplatform.googleapis.com/'');
                    c3 = c2\<lparr>client_http_options :=
                              (client_http_options c2)\<lparr>base_url := Some url\<rparr>\<rparr>
                in if modelgarden c3 = Some True
                   then
                     (if \<not> (truthy_str (project c3) \<and> truthy_str (location c3))
                      then Inl (ValueError
                        ''Project and location must be set when using ModelGarden models.'')
                      else Inr (c3\<lparr>client_http_options :=
                                     (client_http_options c3)\<lparr>api_version := Some ''v1''\<rparr>\<rparr>))
                   else Inr (c3\<lparr>client_http_options :=
                                  (client_http_options c3)\<lparr>api_version := Some ''v1beta1''\<rparr>\<rparr>)))"

text \<open>The direct branch of \<open>__init__\<close>.\<close>

definition init_mldev :: "api_client \<Rightarrow> error + api_client" where
  "init_mldev c =
     (if \<not> truthy_str (api_key c)
      then Inl (ValueError
        (''Missing key inputs argument! To use the Google AI API,''
         @ ''provide (`api_key`) arguments. To use the Google Cloud API,''
         @ '' provide (`vertexai`, `project` & `location`) arguments.''))
      else Inr (c\<lparr>client_http_options :=
                    (client_http_options c)
                      \<lparr>base_url := Some ''https://generativelanguage.googleapis.com/'',
                       api_version := Some ''v1beta''\<rparr>\<rparr>))"

text \<open>The default headers and the user's options, the tail of \<open>__init__\<close>.\<close>

definition init_headers ::
  "string \<Rightarrow> http_options_arg \<Rightarrow> http_options \<Rightarrow> api_client \<Rightarrow> api_client" where
  "init_headers vhv arg validated_http_options c =
     (let hs0 = [''Content-Type'' \<mapsto> ''application/json''];
          hs1 = (if truthy_str (api_key c) then hs0(''x-goog-api-key'' \<mapsto> fmt (api_key c))
                 else hs0);
          opts = (client_http_options c)\<lparr>headers := Some hs1\<rparr>
      in if truthy_options arg
         then c\<lparr>client_http_options := patch_http_options vhv opts validated_http_options\<rparr>
         else c\<lparr>client_http_options :=
                  opts\<lparr>headers := Some (append_library_version_headers vhv hs1)\<rparr>\<rparr>)"

text \<open>
  \<open>BaseApiClient.__init__\<close>. The parameters are the identity token \<open>vhv\<close>, the process
  environment \<open>env\<close>, the outcome of \<open>google.auth.default\<close> and pydantic's
  \<open>HttpOptions.model_validate\<close>; the arguments follow in the order of the signature.
\<close>

definition init ::
  "string \<Rightarrow> (string \<rightharpoonup> string) \<Rightarrow> (error + credentials \<times> string option)
     \<Rightarrow> ((string \<times> pyval) list \<Rightarrow> http_options option)
     \<Rightarrow> bool option \<Rightarrow> bool option \<Rightarrow> string option \<Rightarrow> credentials option
     \<Rightarrow> string option \<Rightarrow> string option \<Rightarrow> http_options_arg
     \<Rightarrow> error + api_client" where
  "init vhv env auth_default model_validate
       vertexai0 modelgarden0 api_key0 creds project0 location0 http_options0 =
     (let vertexai1 =
            (if vertexai0 = None \<and> env_flag env ''GOOGLE_GENAI_USE_VERTEXAI''
             then Some True else vertexai0);
          modelgarden1 =
            (if modelgarden0 = None \<and> env_flag env ''GOOGLE_GENAI_USE_MODELGARDEN''
             then Some True else modelgarden0);
          vertexai2 = (if modelgarden1 = Some True then Some True else vertexai1)
      in if (truthy_str project0 \<or> truthy_str location0) \<and> truthy_str api_key0
         then Inl (ValueError
           ''Project/location and API key are mutually exclusive in the client initializer.'')
         else if creds \<noteq> None \<and> truthy_str api_key0
         then Inl (ValueError
           ''Credentials and API key are mutually exclusive in the client initializer.'')
         else
           (case validate_http_options model_validate http_options0 of
              Inl e \<Rightarrow> Inl e
            | Inr validated_http_options \<Rightarrow>
                (let env_project = env ''GOOGLE_CLOUD_PROJECT'';
                     env_location = env ''GOOGLE_CLOUD_LOCATION'';
                     env_api_key = env ''GOOGLE_API_KEY'';
                     c0 = \<lparr>vertexai = vertexai2, modelgarden = modelgarden1,
                           project = str_or project0 env_project,
                           location = str_or location0 env_location,
                           api_key = str_or api_key0 env_api_key,
                           client_credentials = creds,
                           client_http_options = HttpOptions\<rparr>;
                     resolved =
                       (if vertexai2 = Some True
                        then init_vertex auth_default creds api_key0 project0 location0
                               env_project env_location env_api_key c0
                        else init_mldev c0)
                 in case resolved of
                      Inl e \<Rightarrow> Inl e
                    | Inr c \<Rightarrow> Inr (init_headers vhv http_options0 validated_http_options c))))"





section \<open>Streaming decode (\<open>HttpResponse.segments\<close>)\<close>











section \<open>Base64 (\<open>base64.b64encode\<close>, \<open>base64.urlsafe_b64encode\<close> and their decoders)\<close>

text \<open>
  Base64 as RFC 4648 defines it and as Python's \<open>base64\<close> module implements it: three
  bytes become four characters of the alphabet, six bits each, and the last group is
  padded with \<open>=\<close>. The standard alphabet ends in \<open>+/\<close>, the URL-safe one in \<open>-_\<close>. The
  decoders are the strict ones: they accept the padded text over their alphabet.
\<close>

definition b64_alphabet :: string where
  "b64_alphabet = ''ABCDEFGHIJKLMNOPQRSTUVWXYZabcdefghijklmnopqrstuvwxyz0123456789+/''"

definition urlsafe_alphabet :: string where
  "urlsafe_alphabet = ''ABCDEFGHIJKLMNOPQRSTUVWXYZabcdefghijklmnopqrstuvwxyz0123456789-_''"

fun encode_with :: "string \<Rightarrow> 8 word list \<Rightarrow> string" where
  "encode_with al [] = []"
| "encode_with al [a] =
     [al ! (unat a div 4), al ! ((unat a mod 4) * 16), CHR ''='', CHR ''='']"
| "encode_with al [a, b] =
     [al ! (unat a div 4), al ! ((unat a mod 4) * 16 + unat b div 16),
      al ! ((unat b mod 16) * 4), CHR ''='']"
| "encode_with al (a # b # c # rest) =
     [al ! (unat a div 4), al ! ((unat a mod 4) * 16 + unat b div 16),
      al ! ((unat b mod 16) * 4 + unat c div 64), al ! (unat c mod 64)]
     @ encode_with al rest"

fun index_of :: "string \<Rightarrow> char \<Rightarrow> nat option" where
  "index_of [] c = None"
| "index_of (x # xs) c = (if x = c then Some 0 else map_option Suc (index_of xs c))"

fun decode_with :: "string \<Rightarrow> string \<Rightarrow> 8 word list option" where
  "decode_with al (c1 # c2 # c3 # c4 # rest) =
     (if rest = [] \<and> c3 = CHR ''='' \<and> c4 = CHR ''=''
      then (case (index_of al c1, index_of al c2) of
              (Some i1, Some i2) \<Rightarrow> Some [of_nat (i1 * 4 + i2 div 16)]
            | _ \<Rightarrow> None)
      else if rest = [] \<and> c4 = CHR ''=''
      then (case (index_of al c1, index_of al c2, index_of al c3) of
              (Some i1, Some i2, Some i3) \<Rightarrow>
                Some [of_nat (i1 * 4 + i2 div 16), of_nat ((i2 mod 16) * 16 + i3 div 4)]
            | _ \<Rightarrow> None)
      else (case (index_of al c1, index_of al c2, index_of al c3, index_of al c4) of
              (Some i1, Some i2, Some i3, Some i4) \<Rightarrow>
                (case decode_with al rest of
                   None \<Rightarrow> None
                 | Some bs \<Rightarrow>
                     Some (of_nat (i1 * 4 + i2 div 16)
                           # of_nat ((i2 mod 16) * 16 + i3 div 4)
                           # of_nat ((i3 mod 4) * 64 + i4) # bs))
            | _ \<Rightarrow> None))"
| "decode_with al [] = Some []"
| "decode_with al s = None"

definition b64encode :: "8 word list \<Rightarrow> string" where
  "b64encode bs = encode_with b64_alphabet bs"

definition urlsafe_b64encode :: "8 word list \<Rightarrow> string" where
  "urlsafe_b64encode bs = encode_with urlsafe_alphabet bs"

definition b64decode :: "string \<Rightarrow> 8 word list option" where
  "b64decode s = decode_with b64_alphabet s"

definition urlsafe_b64decode :: "string \<Rightarrow> 8 word list option" where
  "urlsafe_b64decode s = decode_with urlsafe_alphabet s"

text \<open>\<open>t_bytes\<close> (\<open>_transformers.py\<close>): a value that is not \<open>bytes\<close> is returned as it is.\<close>

definition t_bytes :: "api_client \<Rightarrow> pyval \<Rightarrow> pyval" where
  "t_bytes api_client data =
     (case data of
        PBytes bs \<Rightarrow>
          if vertexai api_client = Some True then PStr (b64encode bs)
          else PStr (urlsafe_b64encode bs)
      | other \<Rightarrow> other)"

text \<open>What the round trip needs of an alphabet.\<close>

definition good_alphabet :: "string \<Rightarrow> bool" where
  "good_alphabet al \<longleftrightarrow> length al = 64 \<and> distinct al \<and> CHR ''='' \<notin> set al"

section \<open>Long-running operations (\<open>t_resolve_operation\<close>)\<close>

text \<open>\<open>'/operations/' in name\<close> for a truthy \<open>name\<close>.\<close>

fun operations_in :: "pyval \<Rightarrow> error + bool" where
  "operations_in (PStr s) = Inr (str_contains s ''/operations/'')"
| "operations_in (PList xs) = Inr (PStr ''/operations/'' \<in> set xs)"
| "operations_in (PDict d) = Inr (has_key d ''/operations/'')"
| "operations_in v = Inl TypeError"

definition LRO_POLLING_INITIAL_DELAY_SECONDS :: rat where
  "LRO_POLLING_INITIAL_DELAY_SECONDS = 1"

definition LRO_POLLING_MAXIMUM_DELAY_SECONDS :: rat where
  "LRO_POLLING_MAXIMUM_DELAY_SECONDS = 20"

definition LRO_POLLING_TIMEOUT_SECONDS :: rat where
  "LRO_POLLING_TIMEOUT_SECONDS = 900"

definition LRO_POLLING_MULTIPLIER :: rat where
  "LRO_POLLING_MULTIPLIER = 3 / 2"

text \<open>
  The \<open>while\<close> loop of \<open>t_resolve_operation\<close>. \<open>request i\<close> is the outcome of the
  \<open>i\<close>-th \<open>api_client.request(http_method='GET', path=name, request_dict={})\<close>.
  \<open>time.sleep(delay_seconds)\<close> changes no variable of the loop. The loop may run
  forever: it is given fuel, and \<open>None\<close> is the loop still running when the fuel is used
  up.
\<close>

fun poll ::
  "nat \<Rightarrow> (nat \<Rightarrow> error + pyval) \<Rightarrow> pyval \<Rightarrow> nat \<Rightarrow> pyval \<Rightarrow> rat \<Rightarrow> rat
     \<Rightarrow> (error + pyval) option" where
  "poll 0 request name i operation total_seconds delay_seconds = None"
| "poll (Suc fuel) request name i operation total_seconds delay_seconds =
     (case py_get operation ''done'' of
        Inl e \<Rightarrow> Some (Inl e)
      | Inr d \<Rightarrow>
          if \<not> eq_True d
          then
            (if total_seconds > LRO_POLLING_TIMEOUT_SECONDS
             then Some (Inl (OperationTimedOut name operation))
             else
               (case request i of
                  Inl e \<Rightarrow> Some (Inl e)
                | Inr operation' \<Rightarrow>
                    poll fuel request name (Suc i) operation'
                      (total_seconds + total_seconds)
                      (min (delay_seconds * LRO_POLLING_MULTIPLIER)
                         LRO_POLLING_MAXIMUM_DELAY_SECONDS)))
          else Some (Inr operation))"

text \<open>\<open>t_resolve_operation\<close>: a payload that is not an operation handle is returned as it is.\<close>

definition t_resolve_operation ::
  "nat \<Rightarrow> (nat \<Rightarrow> error + pyval) \<Rightarrow> (string \<times> pyval) list \<Rightarrow> (error + pyval) option" where
  "t_resolve_operation fuel request struct =
     (let name = dict_get struct ''name'' in
      if truthy name
      then
        (case operations_in name of
           Inl e \<Rightarrow> Some (Inl e)
         | Inr is_operation \<Rightarrow>
             if is_operation
             then
               (case poll fuel request name 0 (PDict struct) 0
                       LRO_POLLING_INITIAL_DELAY_SECONDS of
                  None \<Rightarrow> None
                | Some (Inl e) \<Rightarrow> Some (Inl e)
                | Some (Inr operation) \<Rightarrow>
                    (case py_get operation ''error'' of
                       Inl e \<Rightarrow> Some (Inl e)
                     | Inr err \<Rightarrow>
                         if truthy err then Some (Inl (OperationFailed name err operation))
                         else
                           (case py_get operation ''response'' of
                              Inl e \<Rightarrow> Some (Inl e)
                            | Inr response \<Rightarrow> Some (Inr response))))
             else Some (Inr (PDict struct)))
      else Some (Inr (PDict struct)))"

section \<open>Chunked upload (\<open>BaseApiClient._upload_fd\<close>)\<close>


text \<open>
  One POST of the upload: the three headers (the offset and the length before \<open>str\<close>),
  the body and the timeout.
\<close>

record upload_request =
  upload_command :: string
  upload_offset :: int
  content_length :: int
  content :: "8 word list"
  post_timeout :: "rat option"








section \<open>Content transformers (\<open>_transformers.py\<close>) and the live input encoder (\<open>live.py\<close>)\<close>

text \<open>
  What the encoder uses of pydantic, of \<open>types.py\<close>, of \<open>models.py\<close> and of PIL, none of
  which is part of the code at hand, is a parameter:
  \<^item> \<open>construct cls kwargs\<close> is \<open>cls(**kwargs)\<close> (and \<open>cls.model_validate(kwargs)\<close>): the
    attribute values of the new instance, or \<open>None\<close> for a \<open>ValidationError\<close>;
  \<^item> \<open>model_dump cls attrs\<close> is \<open>instance.model_dump(exclude_none=True, mode='json')\<close>;
  \<^item> \<open>content_to_mldev\<close> and \<open>content_to_vertex\<close> are \<open>models._Content_to_mldev\<close> and
    \<open>models._Content_to_vertex\<close>;
  \<^item> \<open>part_union v\<close> is \<open>isinstance(v, get_args(types.PartUnion))\<close>;
  \<^item> \<open>part_from_uri\<close> is \<open>types.Part.from_uri\<close>;
  \<^item> \<open>pil_is_png img\<close> is
    \<open>isinstance(img, PIL.PngImagePlugin.PngImageFile) or img.mode == 'RGBA'\<close> and
    \<open>pil_save img format\<close> the bytes that \<open>img.save(bytesio, format=format)\<close> writes.
\<close>

record externals =
  construct :: "pycls \<Rightarrow> (string \<times> pyval) list \<Rightarrow> (string \<times> pyval) list option"
  model_dump :: "pycls \<Rightarrow> (string \<times> pyval) list \<Rightarrow> (string \<times> pyval) list"
  content_to_mldev :: "pyval \<Rightarrow> error + (string \<times> pyval) list"
  content_to_vertex :: "pyval \<Rightarrow> error + (string \<times> pyval) list"
  part_union :: "pyval \<Rightarrow> bool"
  part_from_uri :: "pyval \<Rightarrow> pyval \<Rightarrow> pyval"
  pil_is_png :: "pyval \<Rightarrow> bool"
  pil_save :: "pyval \<Rightarrow> string \<Rightarrow> 8 word list"

text \<open>\<open>isinstance\<close> tests and attribute access.\<close>

fun is_str :: "pyval \<Rightarrow> bool" where
  "is_str (PStr s) = True"
| "is_str v = False"

fun is_bytes :: "pyval \<Rightarrow> bool" where
  "is_bytes (PBytes bs) = True"
| "is_bytes v = False"

fun is_dict :: "pyval \<Rightarrow> bool" where
  "is_dict (PDict d) = True"
| "is_dict v = False"

fun is_instance :: "pycls \<Rightarrow> pyval \<Rightarrow> bool" where
  "is_instance cls (PObj c attrs) = (c = cls)"
| "is_instance cls v = False"

text \<open>\<open>key in v\<close> for a dict \<open>v\<close>.\<close>

fun key_in :: "string \<Rightarrow> pyval \<Rightarrow> bool" where
  "key_in k (PDict d) = has_key d k"
| "key_in k v = False"

text \<open>\<open>obj.name\<close> for a model instance: an attribute that was not set is \<open>None\<close>.\<close>

fun attr :: "pyval \<Rightarrow> string \<Rightarrow> pyval" where
  "attr (PObj c attrs) name = dict_get attrs name"
| "attr v name = PNone"

text \<open>
  \<open>isinstance(v, Sequence)\<close> and the items of the sequence: lists, strings (their
  characters) and byte strings (their bytes as ints).
\<close>

fun seq_items :: "pyval \<Rightarrow> pyval list option" where
  "seq_items (PList xs) = Some xs"
| "seq_items (PStr s) = Some (map (\<lambda>c. PStr [c]) s)"
| "seq_items (PBytes bs) = Some (map (\<lambda>b. PInt (uint b)) bs)"
| "seq_items v = None"

definition is_sequence :: "pyval \<Rightarrow> bool" where
  "is_sequence v = (seq_items v \<noteq> None)"

definition items_of :: "pyval \<Rightarrow> pyval list" where
  "items_of v = (case seq_items v of None \<Rightarrow> [] | Some xs \<Rightarrow> xs)"

text \<open>A list comprehension whose element expression may raise: the first exception wins.\<close>

fun sequence_sum :: "(error + 'a) list \<Rightarrow> error + 'a list" where
  "sequence_sum [] = Inr []"
| "sequence_sum (Inl e # rs) = Inl e"
| "sequence_sum (Inr v # rs) =
     (case sequence_sum rs of Inl e \<Rightarrow> Inl e | Inr vs \<Rightarrow> Inr (v # vs))"

text \<open>Building an instance: \<open>cls(**kwargs)\<close>, which raises \<open>pydantic.ValidationError\<close>.\<close>

definition new :: "externals \<Rightarrow> pycls \<Rightarrow> (string \<times> pyval) list \<Rightarrow> error + pyval" where
  "new X cls kwargs =
     (case construct X cls kwargs of
        None \<Rightarrow> Inl ValidationError
      | Some attrs \<Rightarrow> Inr (PObj cls attrs))"

definition pil_to_blob :: "externals \<Rightarrow> pyval \<Rightarrow> error + pyval" where
  "pil_to_blob X img =
     (if pil_is_png X img
      then new X Blob [(''mime_type'', PStr ''image/png''),
                       (''data'', PBytes (pil_save X img ''PNG''))]
      else new X Blob [(''mime_type'', PStr ''image/jpeg''),
                       (''data'', PBytes (pil_save X img ''JPEG''))])"

text \<open>
  \<open>t_part\<close>, \<open>t_parts\<close>, \<open>t_content\<close>, \<open>t_contents\<close>. Their \<open>client\<close> argument is not
  used and is left out.
\<close>

definition t_part :: "externals \<Rightarrow> pyval \<Rightarrow> error + pyval" where
  "t_part X part =
     (if \<not> truthy part then Inl (ValueError ''content part is required.'')
      else if is_str part then new X Part [(''text'', part)]
      else if is_instance Image part
        then (case pil_to_blob X part of
                Inl e \<Rightarrow> Inl e
              | Inr blob \<Rightarrow> new X Part [(''inline_data'', blob)])
      else if is_instance File part
        then (if \<not> truthy (attr part ''uri'') \<or> \<not> truthy (attr part ''mime_type'')
              then Inl (ValueError ''file uri and mime_type are required.'')
              else Inr (part_from_uri X (attr part ''uri'') (attr part ''mime_type'')))
      else Inr part)"

definition t_parts :: "externals \<Rightarrow> pyval \<Rightarrow> error + pyval list" where
  "t_parts X parts =
     (if parts = PNone then Inl (ValueError ''content parts are required.'')
      else (case parts of
              PList ps \<Rightarrow> sequence_sum (map (t_part X) ps)
            | _ \<Rightarrow> sequence_sum [t_part X parts]))"

definition t_content :: "externals \<Rightarrow> pyval \<Rightarrow> error + pyval" where
  "t_content X content0 =
     (if \<not> truthy content0 then Inl (ValueError ''content is required.'')
      else if is_instance Content content0 then Inr content0
      else (case content0 of
              PDict d \<Rightarrow> new X Content d
            | _ \<Rightarrow>
                (case t_parts X content0 of
                   Inl e \<Rightarrow> Inl e
                 | Inr parts \<Rightarrow>
                     new X Content [(''role'', PStr ''user''), (''parts'', PList parts)])))"

definition t_contents :: "externals \<Rightarrow> pyval \<Rightarrow> error + pyval list" where
  "t_contents X contents =
     (if \<not> truthy contents then Inl (ValueError ''contents are required.'')
      else (case contents of
              PList cs \<Rightarrow> sequence_sum (map (t_content X) cs)
            | _ \<Rightarrow> sequence_sum [t_content X contents]))"

definition FUNCTION_RESPONSE_REQUIRES_ID :: string where
  "FUNCTION_RESPONSE_REQUIRES_ID =
     ''FunctionResponse request must have an `id` field from the''
     @ '' response of a ToolCall.FunctionalCalls in Google AI.''"

text \<open>The first block of \<open>_parse_client_message\<close>: \<open>formatted_input\<close>.\<close>

definition format_input :: "externals \<Rightarrow> api_client \<Rightarrow> pyval \<Rightarrow> error + pyval" where
  "format_input X api_client input =
     (if is_str input then Inr (PList [input])
      else if is_dict input \<and> key_in ''data'' input
        then (case input of
                PDict d \<Rightarrow>
                  (case construct X Blob d of
                     None \<Rightarrow> Inl (UnsupportedInput input)
                   | Some blob_input \<Rightarrow>
                       if is_bytes (dict_get blob_input ''data'')
                       then Inr (PList [PDict (model_dump X Blob blob_input)])
                       else Inr input)
              | _ \<Rightarrow> Inr input)
      else if is_instance Blob input then Inr (PList [input])
      else if is_dict input \<and> key_in ''name'' input \<and> key_in ''response'' input
        then (if vertexai api_client \<noteq> Some True \<and> \<not> key_in ''id'' input
              then Inl (ValueError FUNCTION_RESPONSE_REQUIRES_ID)
              else Inr (PList [input]))
      else Inr input)"

text \<open>
  \<open>types.FunctionResponseDict(name=..., response=...)\<close>, and the \<open>id\<close> when the dump has a
  truthy one.
\<close>

definition function_response_typeddict :: "(string \<times> pyval) list \<Rightarrow> pyval" where
  "function_response_typeddict function_response_dict =
     PDict ([(''name'', dict_get function_response_dict ''name''),
             (''response'', dict_get function_response_dict ''response'')]
            @ (if truthy (dict_get function_response_dict ''id'')
               then [(''id'', dict_get function_response_dict ''id'')] else []))"

text \<open>The loop of the tool-response branch over the items of the sequence.\<close>

fun function_responses_input ::
  "externals \<Rightarrow> api_client \<Rightarrow> pyval \<Rightarrow> pyval list \<Rightarrow> error + pyval list" where
  "function_responses_input X api_client input [] = Inr []"
| "function_responses_input X api_client input (item # items) =
     (case item of
        PDict d \<Rightarrow>
          (case construct X FunctionResponse d of
             None \<Rightarrow> Inl (UnsupportedInput input)
           | Some function_response_input \<Rightarrow>
               if dict_get function_response_input ''id'' = PNone
                  \<and> vertexai api_client \<noteq> Some True
               then Inl (ValueError FUNCTION_RESPONSE_REQUIRES_ID)
               else
                 (case function_responses_input X api_client input items of
                    Inl e \<Rightarrow> Inl e
                  | Inr rest \<Rightarrow>
                      Inr (function_response_typeddict
                             (model_dump X FunctionResponse function_response_input)
                           # rest)))
      | _ \<Rightarrow> function_responses_input X api_client input items)"

text \<open>The loop of the client-content branch over the converted contents.\<close>

fun content_dict_list :: "externals \<Rightarrow> pyval \<Rightarrow> (string \<times> pyval) list list \<Rightarrow> error + pyval list" where
  "content_dict_list X input [] = Inr []"
| "content_dict_list X input (item # items) =
     (case construct X Content item of
        None \<Rightarrow> Inl (UnsupportedInput input)
      | Some content_input \<Rightarrow>
          (case map_of (model_dump X Content content_input) ''parts'' of
             None \<Rightarrow> Inl (KeyError ''parts'')
           | Some parts \<Rightarrow>
               (case content_dict_list X input items of
                  Inl e \<Rightarrow> Inl e
                | Inr rest \<Rightarrow>
                    Inr (PDict [(''parts'', parts),
                                (''role'', dict_get content_input ''role'')] # rest))))"

text \<open>\<open>[b.model_dump(exclude_none=True, mode='json') for b in formatted_input]\<close>\<close>

fun dump_item :: "externals \<Rightarrow> pyval \<Rightarrow> error + pyval" where
  "dump_item X (PObj cls attrs) =
     (if cls = Image then Inl AttributeError else Inr (PDict (model_dump X cls attrs)))"
| "dump_item X v = Inl AttributeError"

text \<open>\<open>d[key]\<close>\<close>

definition subscript :: "(string \<times> pyval) list \<Rightarrow> string \<Rightarrow> error + pyval" where
  "subscript d key = (case map_of d key of None \<Rightarrow> Inl (KeyError key) | Some v \<Rightarrow> Inr v)"

text \<open>\<open>media_chunks[0]['data']\<close>\<close>

fun first_data :: "pyval \<Rightarrow> error + pyval" where
  "first_data (PList []) = Inl IndexError"
| "first_data (PList (PDict d # rest)) = subscript d ''data''"
| "first_data (PList (v # rest)) = Inl TypeError"
| "first_data (PDict d) = Inl (KeyError ''0'')"
| "first_data v = Inl TypeError"

text \<open>
  The loop over the media chunks of a \<open>LiveClientRealtimeInput\<close> whose first chunk holds
  bytes: \<open>base64.b64decode\<close> raises \<open>binascii.Error\<close> on text that is not base64.
\<close>

definition bytes_text :: "8 word list \<Rightarrow> string" where
  "bytes_text bs = map (\<lambda>b. char_of (unat b)) bs"

fun formatted_media_chunks :: "externals \<Rightarrow> pyval \<Rightarrow> pyval list \<Rightarrow> error + pyval list" where
  "formatted_media_chunks X input [] = Inr []"
| "formatted_media_chunks X input (item # items) =
     (case item of
        PDict d \<Rightarrow>
          (case construct X Blob d of
             None \<Rightarrow> Inl (UnsupportedInput input)
           | Some blob_input \<Rightarrow>
               (case dict_get blob_input ''data'' of
                  PBytes bs \<Rightarrow>
                    (case b64decode (bytes_text bs) of
                       None \<Rightarrow> Inl (ExternalError ''binascii.Error'')
                     | Some decoded \<Rightarrow>
                         (case formatted_media_chunks X input items of
                            Inl e \<Rightarrow> Inl e
                          | Inr rest \<Rightarrow>
                              Inr (PDict [(''data'', PBytes decoded),
                                          (''mime_type'', dict_get blob_input ''mime_type'')]
                                   # rest)))
                | _ \<Rightarrow> formatted_media_chunks X input items))
      | _ \<Rightarrow> formatted_media_chunks X input items)"

text \<open>\<open>types.LiveClientMessageDict\<close> with one of its three keys.\<close>

definition client_content_message :: "(string \<times> pyval) list \<Rightarrow> pyval" where
  "client_content_message client_content = PDict [(''client_content'', PDict client_content)]"

definition realtime_input_message :: "pyval \<Rightarrow> pyval" where
  "realtime_input_message media_chunks =
     PDict [(''realtime_input'', PDict [(''media_chunks'', media_chunks)])]"

definition tool_response_message :: "pyval \<Rightarrow> pyval" where
  "tool_response_message function_responses =
     PDict [(''tool_response'', PDict [(''function_responses'', function_responses)])]"

definition opt_bool :: "bool option \<Rightarrow> pyval" where
  "opt_bool b = (case b of None \<Rightarrow> PNone | Some v \<Rightarrow> PBool v)"

definition is_function_response_dict :: "pyval \<Rightarrow> bool" where
  "is_function_response_dict c = (is_dict c \<and> key_in ''name'' c \<and> key_in ''response'' c)"

text \<open>The branches of the \<open>if/elif\<close> chain over \<open>formatted_input\<close>, in its order.\<close>

definition tool_response_branch :: "externals \<Rightarrow> api_client \<Rightarrow> pyval \<Rightarrow> pyval \<Rightarrow> error + pyval" where
  "tool_response_branch X api_client input formatted_input =
     (case function_responses_input X api_client input (items_of formatted_input) of
        Inl e \<Rightarrow> Inl e
      | Inr function_responses \<Rightarrow> Inr (tool_response_message (PList function_responses)))"

definition client_content_branch ::
  "externals \<Rightarrow> api_client \<Rightarrow> pyval \<Rightarrow> pyval \<Rightarrow> bool option \<Rightarrow> error + pyval" where
  "client_content_branch X api_client input formatted_input end_of_turn =
     (let content_input_parts = filter (part_union X) (items_of formatted_input)
      in case t_contents X (PList content_input_parts) of
           Inl e \<Rightarrow> Inl e
         | Inr cs \<Rightarrow>
             (case sequence_sum
                     (map (if vertexai api_client = Some True then content_to_vertex X
                           else content_to_mldev X) cs) of
                Inl e \<Rightarrow> Inl e
              | Inr contents \<Rightarrow>
                  (case content_dict_list X input contents of
                     Inl e \<Rightarrow> Inl e
                   | Inr turns \<Rightarrow>
                       Inr (client_content_message
                              [(''turns'', PList turns),
                               (''turn_complete'', opt_bool end_of_turn)]))))"

definition realtime_sequence_branch :: "externals \<Rightarrow> pyval \<Rightarrow> pyval \<Rightarrow> error + pyval" where
  "realtime_sequence_branch X input formatted_input =
     (if list_ex (\<lambda>b. is_dict b \<and> key_in ''data'' b) (items_of formatted_input)
      then Inr (realtime_input_message formatted_input)
      else if list_ex (is_instance Blob) (items_of formatted_input)
        then (case sequence_sum (map (dump_item X) (items_of formatted_input)) of
                Inl e \<Rightarrow> Inl e
              | Inr dumped \<Rightarrow> Inr (realtime_input_message (PList dumped)))
      else Inl (UnsupportedInput input))"

definition dict_branch :: "externals \<Rightarrow> pyval \<Rightarrow> (string \<times> pyval) list \<Rightarrow> error + pyval" where
  "dict_branch X input d =
     (if has_key d ''content'' \<or> has_key d ''turns''
      then Inr (client_content_message
                  [(''turns'', if has_key d ''turns'' then dict_get d ''turns''
                               else dict_get d ''content''),
                   (''turn_complete'', dict_get d ''turn_complete'')])
      else if has_key d ''media_chunks''
        then (case construct X LiveClientRealtimeInput d of
                None \<Rightarrow> Inl (UnsupportedInput input)
              | Some realtime_input \<Rightarrow>
                  (case subscript (model_dump X LiveClientRealtimeInput realtime_input)
                          ''media_chunks'' of
                     Inl e \<Rightarrow> Inl e
                   | Inr media_chunks \<Rightarrow> Inr (realtime_input_message media_chunks)))
      else if has_key d ''function_responses''
        then (case construct X LiveClientToolResponse d of
                None \<Rightarrow> Inl (UnsupportedInput input)
              | Some tool_response_input \<Rightarrow>
                  (case subscript (model_dump X LiveClientToolResponse tool_response_input)
                          ''function_responses'' of
                     Inl e \<Rightarrow> Inl e
                   | Inr function_responses \<Rightarrow>
                       Inr (tool_response_message function_responses)))
      else Inl (UnsupportedInput input))"

definition realtime_object_branch ::
  "externals \<Rightarrow> pyval \<Rightarrow> (string \<times> pyval) list \<Rightarrow> error + pyval" where
  "realtime_object_branch X input attrs =
     (let realtime_input_dict = model_dump X LiveClientRealtimeInput attrs;
          media_chunks = dict_get realtime_input_dict ''media_chunks''
      in if media_chunks \<noteq> PNone
         then (case first_data media_chunks of
                 Inl e \<Rightarrow> Inl e
               | Inr first \<Rightarrow>
                   if is_bytes first
                   then (case formatted_media_chunks X input (items_of media_chunks) of
                           Inl e \<Rightarrow> Inl e
                         | Inr chunks \<Rightarrow> Inr (realtime_input_message (PList chunks)))
                   else Inr (realtime_input_message media_chunks))
         else Inr (realtime_input_message media_chunks))"

definition client_content_object_branch :: "externals \<Rightarrow> (string \<times> pyval) list \<Rightarrow> pyval" where
  "client_content_object_branch X attrs =
     (let client_content_dict = model_dump X LiveClientContent attrs
      in client_content_message
           [(''turns'', dict_get client_content_dict ''turns''),
            (''turn_complete'', dict_get client_content_dict ''turn_complete'')])"

text \<open>\<open>formatted_input.function_responses[0].id\<close>\<close>

fun first_id :: "pyval \<Rightarrow> error + pyval" where
  "first_id (PList []) = Inl IndexError"
| "first_id (PList (v # rest)) =
     (case v of PObj cls attrs \<Rightarrow> Inr (dict_get attrs ''id'') | _ \<Rightarrow> Inl AttributeError)"
| "first_id v = Inl TypeError"

definition tool_response_object_branch ::
  "externals \<Rightarrow> api_client \<Rightarrow> (string \<times> pyval) list \<Rightarrow> error + pyval" where
  "tool_response_object_branch X api_client attrs =
     (let message = tool_response_message
                      (dict_get (model_dump X LiveClientToolResponse attrs)
                         ''function_responses'')
      in if vertexai api_client \<noteq> Some True \<and> dict_get attrs ''function_responses'' \<noteq> PNone
         then (case first_id (dict_get attrs ''function_responses'') of
                 Inl e \<Rightarrow> Inl e
               | Inr i \<Rightarrow>
                   if \<not> truthy i then Inl (ValueError FUNCTION_RESPONSE_REQUIRES_ID)
                   else Inr message)
         else Inr message)"

definition function_response_object_branch ::
  "externals \<Rightarrow> api_client \<Rightarrow> (string \<times> pyval) list \<Rightarrow> error + pyval" where
  "function_response_object_branch X api_client attrs =
     (if vertexai api_client \<noteq> Some True \<and> \<not> truthy (dict_get attrs ''id'')
      then Inl (ValueError FUNCTION_RESPONSE_REQUIRES_ID)
      else Inr (tool_response_message
                  (PList [function_response_typeddict (model_dump X FunctionResponse attrs)])))"

text \<open>
  The branch for a sequence whose first item is a \<open>FunctionResponse\<close> instance. It stands
  after the branch that takes every sequence.
\<close>

definition function_response_sequence_branch ::
  "externals \<Rightarrow> api_client \<Rightarrow> pyval \<Rightarrow> pyval \<Rightarrow> error + pyval" where
  "function_response_sequence_branch X api_client first formatted_input =
     (if vertexai api_client \<noteq> Some True \<and> \<not> truthy (attr first ''id'')
      then Inl (ValueError FUNCTION_RESPONSE_REQUIRES_ID)
      else (case sequence_sum
                   (map (\<lambda>item. case dump_item X item of
                                  Inl e \<Rightarrow> Inl e
                                | Inr (PDict d) \<Rightarrow> Inr (function_response_typeddict d)
                                | Inr v \<Rightarrow> Inl AttributeError)
                      (items_of formatted_input)) of
              Inl e \<Rightarrow> Inl e
            | Inr function_response_list \<Rightarrow>
                Inr (tool_response_message (PList function_response_list))))"

text \<open>\<open>AsyncSession._parse_client_message\<close>\<close>

definition parse_client_message ::
  "externals \<Rightarrow> api_client \<Rightarrow> pyval \<Rightarrow> bool option \<Rightarrow> error + pyval" where
  "parse_client_message X api_client input end_of_turn =
     (if \<not> truthy input
      then Inr (client_content_message [(''turn_complete'', PBool True)])
      else
        (case format_input X api_client input of
           Inl e \<Rightarrow> Inl e
         | Inr formatted_input \<Rightarrow>
             if is_sequence formatted_input
                \<and> list_ex is_function_response_dict (items_of formatted_input)
             then tool_response_branch X api_client input formatted_input
             else if is_sequence formatted_input
                \<and> list_ex is_str (items_of formatted_input)
             then client_content_branch X api_client input formatted_input end_of_turn
             else if is_sequence formatted_input
             then realtime_sequence_branch X input formatted_input
             else if is_dict formatted_input
             then (case formatted_input of
                     PDict d \<Rightarrow> dict_branch X input d
                   | _ \<Rightarrow> Inl (UnsupportedInput input))
             else if is_instance LiveClientRealtimeInput formatted_input
             then (case formatted_input of
                     PObj cls attrs \<Rightarrow> realtime_object_branch X input attrs
                   | _ \<Rightarrow> Inl (UnsupportedInput input))
             else if is_instance LiveClientContent formatted_input
             then (case formatted_input of
                     PObj cls attrs \<Rightarrow> Inr (client_content_object_branch X attrs)
                   | _ \<Rightarrow> Inl (UnsupportedInput input))
             else if is_instance LiveClientToolResponse formatted_input
             then (case formatted_input of
                     PObj cls attrs \<Rightarrow> tool_response_object_branch X api_client attrs
                   | _ \<Rightarrow> Inl (UnsupportedInput input))
             else if is_instance FunctionResponse formatted_input
             then (case formatted_input of
                     PObj cls attrs \<Rightarrow> function_response_object_branch X api_client attrs
                   | _ \<Rightarrow> Inl (UnsupportedInput input))
             else if is_sequence formatted_input
             then (case items_of formatted_input of
                     [] \<Rightarrow> Inl IndexError
                   | first # rest \<Rightarrow>
                       if is_instance FunctionResponse first
                       then function_response_sequence_branch X api_client first
                              formatted_input
                       else Inl (UnsupportedInput input))
             else Inl (UnsupportedInput input)))"

section \<open>Example inputs\<close>

text \<open>Concrete inputs on which the theorems below are exercised.\<close>

definition example_vhv :: string where
  "example_vhv = version_header_value ''1.10.0'' ''3.11.4''"







text \<open>A handle that is not done, and a transport whose every answer is that handle.\<close>

definition example_pending :: "(string \<times> pyval) list" where
  "example_pending =
     [(''name'', PStr ''projects/p/locations/l/operations/42''), (''done'', PBool False)]"

definition example_never_done :: "nat \<Rightarrow> error + pyval" where
  "example_never_done i = Inr (PDict example_pending)"

text \<open>
  An instance of the parameters: a model accepts exactly its declared fields
  (\<open>extra='forbid'\<close>), a dump drops the \<open>None\<close> attributes and turns instances into dicts
  and bytes into base64 text, and the wire form of a content is its dump.
\<close>

fun example_fields :: "pycls \<Rightarrow> string list" where
  "example_fields Blob = [''data'', ''mime_type'']"
| "example_fields Part = [''text'', ''inline_data'', ''file_data'']"
| "example_fields Content = [''parts'', ''role'']"
| "example_fields File = [''name'', ''uri'', ''mime_type'']"
| "example_fields Image = []"
| "example_fields FunctionResponse = [''id'', ''name'', ''response'']"
| "example_fields LiveClientContent = [''turns'', ''turn_complete'']"
| "example_fields LiveClientRealtimeInput = [''media_chunks'']"
| "example_fields LiveClientToolResponse = [''function_responses'']"

definition example_construct ::
  "pycls \<Rightarrow> (string \<times> pyval) list \<Rightarrow> (string \<times> pyval) list option" where
  "example_construct cls kwargs =
     (if list_all (\<lambda>kv. fst kv \<in> set (example_fields cls)) kwargs then Some kwargs else None)"

primrec example_dump_value :: "pyval \<Rightarrow> pyval" where
  "example_dump_value PNone = PNone"
| "example_dump_value (PBool b) = PBool b"
| "example_dump_value (PInt i) = PInt i"
| "example_dump_value (PFloat r) = PFloat r"
| "example_dump_value (PStr s) = PStr s"
| "example_dump_value (PBytes bs) = PStr (b64encode bs)"
| "example_dump_value (PList xs) = PList (map example_dump_value xs)"
| "example_dump_value (PDict d) = PDict (map (map_prod id example_dump_value) d)"
| "example_dump_value (PObj cls attrs) =
     PDict (filter (\<lambda>kv. snd kv \<noteq> PNone) (map (map_prod id example_dump_value) attrs))"

definition example_model_dump :: "pycls \<Rightarrow> (string \<times> pyval) list \<Rightarrow> (string \<times> pyval) list" where
  "example_model_dump cls attrs =
     filter (\<lambda>kv. fst kv \<in> set (example_fields cls) \<and> snd kv \<noteq> PNone)
       (map (map_prod id example_dump_value) attrs)"

definition example_content_to_wire :: "pyval \<Rightarrow> error + (string \<times> pyval) list" where
  "example_content_to_wire v =
     (case v of
        PObj cls attrs \<Rightarrow> Inr (example_model_dump cls attrs)
      | PDict d \<Rightarrow> Inr d
      | _ \<Rightarrow> Inl TypeError)"

definition example_externals :: externals where
  "example_externals =
     \<lparr>construct = example_construct,
      model_dump = example_model_dump,
      content_to_mldev = example_content_to_wire,
      content_to_vertex = example_content_to_wire,
      part_union = (\<lambda>v. is_str v \<or> is_instance Part v \<or> is_instance File v
                          \<or> is_instance Image v),
      part_from_uri = (\<lambda>uri mime_type.
        PObj Part [(''file_data'', PDict [(''file_uri'', uri), (''mime_type'', mime_type)])]),
      pil_is_png = (\<lambda>img. True),
      pil_save = (\<lambda>img format. [])\<rparr>"

definition example_vertex_client :: api_client where
  "example_vertex_client =
     \<lparr>vertexai = Some True, modelgarden = None, project = Some ''p'',
      location = Some ''us-central1'', api_key = None, client_credentials = None,
      client_http_options = HttpOptions\<rparr>"

definition example_mldev_client :: api_client where
  "example_mldev_client =
     \<lparr>vertexai = None, modelgarden = None, project = None,
      location = None, api_key = Some ''k'', client_credentials = None,
      client_http_options = HttpOptions\<rparr>"

definition example_function_response :: "(string \<times> pyval) list" where
  "example_function_response =
     [(''name'', PStr ''get_weather''), (''response'', PDict [(''result'', PStr ''sunny'')])]"



section \<open>Properties of the transport options\<close>















text \<open>
  Claim C3, as amended. For each of \<open>base_url\<close>, \<open>api_version\<close> and \<open>timeout\<close> the merged
  value is the override's value whenever the override's value is not \<open>None\<close> (an empty
  string and 0 included), and the base's value when the override's value is \<open>None\<close>.
\<close>

theorem patch_fields:
  "base_url (patch_http_options vhv options patch_options) =
     (case base_url patch_options of Some v \<Rightarrow> Some v | None \<Rightarrow> base_url options)
   \<and> api_version (patch_http_options vhv options patch_options) =
     (case api_version patch_options of Some v \<Rightarrow> Some v | None \<Rightarrow> api_version options)
   \<and> timeout (patch_http_options vhv options patch_options) =
     (case timeout patch_options of Some v \<Rightarrow> Some v | None \<Rightarrow> timeout options)"
  by (simp add: patch_http_options_def patch_field_def Let_def)

theorem patch_fields_witness:
  "timeout (patch_http_options example_vhv
      (HttpOptions\<lparr>base_url := Some ''https://a.example/'', timeout := Some 5000\<rparr>)
      (HttpOptions\<lparr>base_url := Some ''https://b.example/'', timeout := Some 0\<rparr>)) = Some 0
   \<and> base_url (patch_http_options example_vhv
      (HttpOptions\<lparr>base_url := Some ''https://a.example/'', timeout := Some 5000\<rparr>)
      (HttpOptions\<lparr>base_url := Some ''https://b.example/'', timeout := Some 0\<rparr>))
        = Some ''https://b.example/''
   \<and> api_version (patch_http_options example_vhv
      (HttpOptions\<lparr>api_version := Some ''v1''\<rparr>) HttpOptions) = Some ''v1''"
  using patch_fields [of example_vhv
      "HttpOptions\<lparr>base_url := Some ''https://a.example/'', timeout := Some 5000\<rparr>"
      "HttpOptions\<lparr>base_url := Some ''https://b.example/'', timeout := Some 0\<rparr>"]
    patch_fields [of example_vhv "HttpOptions\<lparr>api_version := Some ''v1''\<rparr>" HttpOptions]
  by (simp add: HttpOptions_def)

theorem patch_empty_override_counterexample:
  "base_url (patch_http_options example_vhv
      (HttpOptions\<lparr>base_url := Some ''https://example.com/''\<rparr>)
      (HttpOptions\<lparr>base_url := Some ''''\<rparr>)) = Some ''''
   \<and> base_url (patch_http_options example_vhv
      (HttpOptions\<lparr>base_url := Some ''https://example.com/''\<rparr>)
      (HttpOptions\<lparr>base_url := Some ''''\<rparr>)) \<noteq> Some ''https://example.com/''"
  by (simp add: patch_http_options_def patch_field_def Let_def HttpOptions_def)




section \<open>Properties of client construction\<close>

lemma project_message_says_exclusive: "str_contains
   ''Project/location and API key are mutually exclusive in the client initializer.''
   ''mutually exclusive''"
  by code_simp

lemma credentials_message_says_exclusive: "str_contains
   ''Credentials and API key are mutually exclusive in the client initializer.''
   ''mutually exclusive''"
  by simp


text \<open>
  Claim C4. When an explicit project or location and an explicit API key are both
  supplied, or explicit credentials and an explicit API key, \<open>__init__\<close> raises a
  \<open>ValueError\<close> whose message says that the arguments are mutually exclusive, and no
  client is returned.
\<close>

theorem init_mutually_exclusive:
  "((truthy_str proj \<or> truthy_str loc) \<and> truthy_str key \<longrightarrow>
      init vhv env auth_default model_validate
        vx mg key creds proj loc http_opts
      = Inl (ValueError
          ''Project/location and API key are mutually exclusive in the client initializer.''))
   \<and> (creds \<noteq> None \<and> truthy_str key
        \<and> \<not> (truthy_str proj \<or> truthy_str loc) \<longrightarrow>
      init vhv env auth_default model_validate
        vx mg key creds proj loc http_opts
      = Inl (ValueError
          ''Credentials and API key are mutually exclusive in the client initializer.''))
   \<and> (((truthy_str proj \<or> truthy_str loc) \<or> creds \<noteq> None)
         \<and> truthy_str key \<longrightarrow>
       (\<exists>msg. init vhv env auth_default model_validate
                vx mg key creds proj loc http_opts
              = Inl (ValueError msg)
            \<and> str_contains msg ''mutually exclusive''))"
proof (intro conjI impI)
  assume "(truthy_str proj \<or> truthy_str loc) \<and> truthy_str key"
  then show "init vhv env auth_default model_validate
        vx mg key creds proj loc http_opts
      = Inl (ValueError
          ''Project/location and API key are mutually exclusive in the client initializer.'')"
    unfolding init_def Let_def by simp
next
  assume "creds \<noteq> None \<and> truthy_str key
        \<and> \<not> (truthy_str proj \<or> truthy_str loc)"
  then show "init vhv env auth_default model_validate
        vx mg key creds proj loc http_opts
      = Inl (ValueError
          ''Credentials and API key are mutually exclusive in the client initializer.'')"
    unfolding init_def Let_def by simp
next
  assume h: "((truthy_str proj \<or> truthy_str loc) \<or> creds \<noteq> None)
         \<and> truthy_str key"
  show "\<exists>msg. init vhv env auth_default model_validate
                vx mg key creds proj loc http_opts
              = Inl (ValueError msg)
            \<and> str_contains msg ''mutually exclusive''"
  proof (cases "truthy_str proj \<or> truthy_str loc")
    case True
    with h have "init vhv env auth_default model_validate
        vx mg key creds proj loc http_opts
      = Inl (ValueError
          ''Project/location and API key are mutually exclusive in the client initializer.'')"
      unfolding init_def Let_def by simp
    with project_message_says_exclusive show ?thesis by blast
  next
    case False
    with h have "init vhv env auth_default model_validate
        vx mg key creds proj loc http_opts
      = Inl (ValueError
          ''Credentials and API key are mutually exclusive in the client initializer.'')"
      unfolding init_def Let_def by simp
    with credentials_message_says_exclusive show ?thesis by blast
  qed
qed

theorem init_mutually_exclusive_witness:
  "truthy_str (Some ''p'') \<and> truthy_str (Some ''k'')
   \<and> init example_vhv Map.empty (Inl (ExternalError ''DefaultCredentialsError''))
        (\<lambda>d. None) None None (Some ''k'') None (Some ''p'') None NoOptions
     = Inl (ValueError
          ''Project/location and API key are mutually exclusive in the client initializer.'')
   \<and> init example_vhv Map.empty (Inl (ExternalError ''DefaultCredentialsError''))
        (\<lambda>d. None) None None (Some ''k'')
        (Some \<lparr>token = None, expired = False, quota_project_id = None\<rparr>) None None NoOptions
     = Inl (ValueError
          ''Credentials and API key are mutually exclusive in the client initializer.'')"
  using init_mutually_exclusive [where proj = "Some ''p''" and loc = None
      and key = "Some ''k''" and creds = None and vhv = example_vhv and env = Map.empty
      and auth_default = "Inl (ExternalError ''DefaultCredentialsError'')"
      and model_validate = "\<lambda>d. None" and vx = None and mg = None
      and http_opts = NoOptions]
    init_mutually_exclusive [where proj = None and loc = None
      and key = "Some ''k''"
      and creds = "Some \<lparr>token = None, expired = False, quota_project_id = None\<rparr>"
      and vhv = example_vhv and env = Map.empty
      and auth_default = "Inl (ExternalError ''DefaultCredentialsError'')"
      and model_validate = "\<lambda>d. None" and vx = None and mg = None
      and http_opts = NoOptions]
  by simp

section \<open>Properties of the streaming decoder\<close>





section \<open>Properties of the byte encoding\<close>

lemma good_b64: "good_alphabet b64_alphabet"
  unfolding good_alphabet_def b64_alphabet_def by code_simp

lemma good_urlsafe: "good_alphabet urlsafe_alphabet"
  unfolding good_alphabet_def urlsafe_alphabet_def by code_simp

lemma index_of_nth: "distinct xs \<Longrightarrow> i < length xs \<Longrightarrow> index_of xs (xs ! i) = Some i"
proof (induction xs arbitrary: i)
  case Nil
  then show ?case by simp
next
  case (Cons x xs)
  show ?case
  proof (cases i)
    case 0
    then show ?thesis by simp
  next
    case (Suc j)
    with Cons.prems have "j < length xs" and "xs ! j \<noteq> x" and "distinct xs"
      by (auto simp: in_set_conv_nth)
    with Cons.IH Suc show ?thesis by auto
  qed
qed

lemma good_index: "good_alphabet al \<Longrightarrow> i < 64 \<Longrightarrow> index_of al (al ! i) = Some i"
  by (simp add: good_alphabet_def index_of_nth)

lemma good_not_pad: "good_alphabet al \<Longrightarrow> i < 64 \<Longrightarrow> al ! i \<noteq> CHR ''=''"
  by (metis good_alphabet_def nth_mem)

lemma unat8: "unat (a :: 8 word) < 256"
  using unsigned_less [of a] by simp

lemma sextet_bounds:
  fixes x y z :: nat
  assumes "x < 256" "y < 256" "z < 256"
  shows "x div 4 < 64" "(x mod 4) * 16 + y div 16 < 64" "(y mod 16) * 4 + z div 64 < 64"
    "z mod 64 < 64" "(x mod 4) * 16 < 64" "(y mod 16) * 4 < 64"
  using assms by simp_all

lemma b64encode_rfc4648_vectors:
  "b64encode [102] = ''Zg==''"
  "b64encode [102, 111] = ''Zm8=''"
  "b64encode [102, 111, 111] = ''Zm9v''"
  "b64encode [102, 111, 111, 98, 97, 114] = ''Zm9vYmFy''"
  "urlsafe_b64encode [255, 239, 190] = ''_---''"
  "b64encode [255, 239, 190] = ''/+++''"
  by (simp_all add: b64encode_def urlsafe_b64encode_def b64_alphabet_def urlsafe_alphabet_def)

lemma decode_encode:
  assumes al: "good_alphabet al"
  shows "decode_with al (encode_with al bs) = Some bs"
  using al
proof (induction al bs rule: encode_with.induct)
  case (1 al)
  show ?case by simp
next
  case (2 al a)
  note g = \<open>good_alphabet al\<close>
  have i1: "index_of al (al ! (unat a div 4)) = Some (unat a div 4)"
    and i2: "index_of al (al ! ((unat a mod 4) * 16)) = Some ((unat a mod 4) * 16)"
    using g sextet_bounds [OF unat8 [of a] unat8 [of a] unat8 [of a]] by (simp_all add: good_index)
  show ?case
    by (simp add: i1 i2)
next
  case (3 al a b)
  note g = \<open>good_alphabet al\<close>
  note sb = sextet_bounds [OF unat8 [of a] unat8 [of b] unat8 [of b]]
  have i1: "index_of al (al ! (unat a div 4)) = Some (unat a div 4)"
    and i2: "index_of al (al ! ((unat a mod 4) * 16 + unat b div 16))
             = Some ((unat a mod 4) * 16 + unat b div 16)"
    and i3: "index_of al (al ! ((unat b mod 16) * 4)) = Some ((unat b mod 16) * 4)"
    using g sb by (simp_all add: good_index)
  have p: "al ! ((unat b mod 16) * 4) \<noteq> CHR ''=''"
    using g sb by (simp add: good_not_pad)
  have lt: "unat b div 16 < 16"
    using unat8 [of b] by simp
  show ?case
    by (simp add: i1 i2 i3 p lt)
next
  case (4 al a b c rest)
  note g = \<open>good_alphabet al\<close>
  note sb = sextet_bounds [OF unat8 [of a] unat8 [of b] unat8 [of c]]
  have i1: "index_of al (al ! (unat a div 4)) = Some (unat a div 4)"
    and i2: "index_of al (al ! ((unat a mod 4) * 16 + unat b div 16))
             = Some ((unat a mod 4) * 16 + unat b div 16)"
    and i3: "index_of al (al ! ((unat b mod 16) * 4 + unat c div 64))
             = Some ((unat b mod 16) * 4 + unat c div 64)"
    and i4: "index_of al (al ! (unat c mod 64)) = Some (unat c mod 64)"
    using g sb by (simp_all add: good_index)
  have p: "al ! (unat c mod 64) \<noteq> CHR ''=''"
    using g sb by (simp add: good_not_pad)
  have ih: "decode_with al (encode_with al rest) = Some rest"
    using "4.IH" g by simp
  have lt: "unat b div 16 < 16" "unat c div 64 < 4"
    using unat8 [of b] unat8 [of c] by simp_all
  show ?case
    by (simp add: i1 i2 i3 i4 p ih lt)
qed

text \<open>
  Claim C7. For every byte string, \<open>t_bytes\<close> under the cloud personality gives the
  standard base64 text, which the standard decoder turns back into the bytes; under the
  direct personality it gives the URL-safe base64 text, which the URL-safe decoder turns
  back into the bytes.
\<close>

theorem t_bytes_round_trip:
  "(vertexai api_client = Some True \<longrightarrow>
      t_bytes api_client (PBytes bs) = PStr (b64encode bs)
      \<and> b64decode (b64encode bs) = Some bs)
   \<and> (vertexai api_client \<noteq> Some True \<longrightarrow>
      t_bytes api_client (PBytes bs) = PStr (urlsafe_b64encode bs)
      \<and> urlsafe_b64decode (urlsafe_b64encode bs) = Some bs)"
  by (simp add: t_bytes_def b64encode_def b64decode_def urlsafe_b64encode_def
      urlsafe_b64decode_def decode_encode good_b64 good_urlsafe)

theorem t_bytes_round_trip_witness:
  "t_bytes example_vertex_client (PBytes [251, 255]) = PStr ''+/8=''
   \<and> b64decode ''+/8='' = Some [251, 255]
   \<and> t_bytes example_mldev_client (PBytes [251, 255]) = PStr ''-_8=''
   \<and> urlsafe_b64decode ''-_8='' = Some [251, 255]"
proof -
  have e: "b64encode [251, 255] = ''+/8=''" "urlsafe_b64encode [251, 255] = ''-_8=''"
    by (simp_all add: b64encode_def urlsafe_b64encode_def b64_alphabet_def
        urlsafe_alphabet_def)
  have m: "vertexai example_mldev_client \<noteq> Some True"
    and v: "vertexai example_vertex_client = Some True"
    by (simp_all add: example_mldev_client_def example_vertex_client_def)
  show ?thesis
    using t_bytes_round_trip [where api_client = example_vertex_client and bs = "[251, 255]"]
      t_bytes_round_trip [where api_client = example_mldev_client and bs = "[251, 255]"]
      e m v
    by simp
qed

section \<open>Properties of the operation poller\<close>

lemma poll_pending:
  assumes srv: "\<forall>i. \<exists>d. request i = Inr (PDict d) \<and> \<not> eq_True (dict_get d ''done'')"
    and op: "\<not> eq_True (dict_get d0 ''done'')"
  shows "poll fuel request name i (PDict d0) 0 delay_seconds = None"
  using op
proof (induction fuel arbitrary: i d0 delay_seconds)
  case 0
  show ?case by simp
next
  case (Suc fuel)
  from srv obtain d where d: "request i = Inr (PDict d)" "\<not> eq_True (dict_get d ''done'')"
    by blast
  have "poll fuel request name (Suc i) (PDict d) 0
          (min (delay_seconds * LRO_POLLING_MULTIPLIER) LRO_POLLING_MAXIMUM_DELAY_SECONDS)
        = None"
    using Suc.IH [OF d(2)] .
  with Suc.prems d show ?case
    by (simp add: LRO_POLLING_TIMEOUT_SECONDS_def)
qed

text \<open>
  Claim C1 says that polling a handle that is never done ends with a timeout error once
  900 seconds have passed. The code does not: \<open>total_seconds += total_seconds\<close> leaves
  \<open>total_seconds\<close> at 0, so the test against the timeout never succeeds. For a payload
  whose name contains \<open>/operations/\<close> and a transport whose every answer is a handle that
  is not done, the loop is still running after any number of rounds.
\<close>

theorem resolve_operation_never_times_out:
  assumes "\<forall>i. \<exists>d. request i = Inr (PDict d) \<and> \<not> eq_True (dict_get d ''done'')"
    and "dict_get struct ''name'' = PStr name"
    and "str_contains name ''/operations/''"
    and "\<not> eq_True (dict_get struct ''done'')"
  shows "t_resolve_operation fuel request struct = None"
proof -
  from assms(3) have "name \<noteq> []" by (cases name) auto
  moreover have "poll fuel request (PStr name) 0 (PDict struct) 0
      LRO_POLLING_INITIAL_DELAY_SECONDS = None"
    using poll_pending [OF assms(1) assms(4)] .
  ultimately show ?thesis
    using assms(2,3) by (simp add: t_resolve_operation_def Let_def)
qed

theorem resolve_operation_never_times_out_witness:
  "t_resolve_operation 1000 example_never_done example_pending = None"
proof -
  have 1: "\<forall>i. \<exists>d. example_never_done i = Inr (PDict d) \<and> \<not> eq_True (dict_get d ''done'')"
    by (simp add: example_never_done_def example_pending_def dict_get_def)
  have 2: "dict_get example_pending ''name'' = PStr ''projects/p/locations/l/operations/42''"
    by (simp add: example_pending_def dict_get_def)
  have 3: "str_contains ''projects/p/locations/l/operations/42'' ''/operations/''"
    by simp
  have 4: "\<not> eq_True (dict_get example_pending ''done'')"
    by (simp add: example_pending_def dict_get_def)
  show ?thesis
    using resolve_operation_never_times_out [OF 1 2 3 4] .
qed

section \<open>Properties of the chunked upload\<close>











section \<open>Properties of the live input encoder\<close>

lemma t_contents_single_text:
  assumes "s \<noteq> []"
    and "construct X Part [(''text'', PStr s)] = Some text_part"
    and "construct X Content [(''role'', PStr ''user''), (''parts'', PList [PObj Part text_part])]
         = Some user_content"
  shows "t_contents X (PList [PStr s]) = Inr [PObj Content user_content]"
  using assms
  by (simp add: t_contents_def t_content_def t_parts_def t_part_def new_def)

text \<open>
  Claim C9. A plain non-empty string is wrapped as one user turn with one text part, and
  \<open>turn_complete\<close> is the caller's \<open>end_of_turn\<close>: when pydantic builds the text part and
  the content, the converter of \<open>models.py\<close> gives its wire form, and the dump of the
  content read back from the wire form has the one text part, the result is the
  \<open>client_content\<close> message with exactly that turn. An empty or absent input gives the
  \<open>client_content\<close> message with \<open>turn_complete\<close> true and nothing else.
\<close>

theorem parse_plain_string:
  "(s \<noteq> [] \<and> part_union X (PStr s)
     \<and> construct X Part [(''text'', PStr s)] = Some text_part
     \<and> construct X Content [(''role'', PStr ''user''), (''parts'', PList [PObj Part text_part])]
         = Some user_content
     \<and> (if vertexai api_client = Some True then content_to_vertex X else content_to_mldev X)
          (PObj Content user_content) = Inr item
     \<and> construct X Content item = Some content_input
     \<and> map_of (model_dump X Content content_input) ''parts''
         = Some (PList [PDict [(''text'', PStr s)]])
     \<longrightarrow> parse_client_message X api_client (PStr s) end_of_turn
         = Inr (PDict [(''client_content'',
                  PDict [(''turns'',
                            PList [PDict [(''parts'', PList [PDict [(''text'', PStr s)]]),
                                          (''role'', dict_get content_input ''role'')]]),
                         (''turn_complete'', opt_bool end_of_turn)])]))
   \<and> (\<not> truthy input \<longrightarrow>
        parse_client_message X api_client input end_of_turn
          = Inr (PDict [(''client_content'', PDict [(''turn_complete'', PBool True)])]))"
proof (intro conjI impI)
  assume h: "s \<noteq> [] \<and> part_union X (PStr s)
     \<and> construct X Part [(''text'', PStr s)] = Some text_part
     \<and> construct X Content [(''role'', PStr ''user''), (''parts'', PList [PObj Part text_part])]
         = Some user_content
     \<and> (if vertexai api_client = Some True then content_to_vertex X else content_to_mldev X)
          (PObj Content user_content) = Inr item
     \<and> construct X Content item = Some content_input
     \<and> map_of (model_dump X Content content_input) ''parts''
         = Some (PList [PDict [(''text'', PStr s)]])"
  then have tc: "t_contents X (PList [PStr s]) = Inr [PObj Content user_content]"
    using t_contents_single_text by blast
  have fmt: "format_input X api_client (PStr s) = Inr (PList [PStr s])"
    by (simp add: format_input_def)
  have branch: "client_content_branch X api_client (PStr s) (PList [PStr s]) end_of_turn
      = Inr (PDict [(''client_content'',
                  PDict [(''turns'',
                            PList [PDict [(''parts'', PList [PDict [(''text'', PStr s)]]),
                                          (''role'', dict_get content_input ''role'')]]),
                         (''turn_complete'', opt_bool end_of_turn)])])"
    using h tc
    by (simp add: client_content_branch_def items_of_def client_content_message_def)
  show "parse_client_message X api_client (PStr s) end_of_turn
         = Inr (PDict [(''client_content'',
                  PDict [(''turns'',
                            PList [PDict [(''parts'', PList [PDict [(''text'', PStr s)]]),
                                          (''role'', dict_get content_input ''role'')]]),
                         (''turn_complete'', opt_bool end_of_turn)])])"
    using h fmt branch
    by (simp add: parse_client_message_def is_sequence_def items_of_def
        is_function_response_dict_def)
next
  assume "\<not> truthy input"
  then show "parse_client_message X api_client input end_of_turn
          = Inr (PDict [(''client_content'', PDict [(''turn_complete'', PBool True)])])"
    by (simp add: parse_client_message_def client_content_message_def)
qed

theorem parse_plain_string_witness:
  "parse_client_message example_externals example_mldev_client (PStr ''hi'') (Some True)
     = Inr (PDict [(''client_content'',
              PDict [(''turns'',
                        PList [PDict [(''parts'', PList [PDict [(''text'', PStr ''hi'')]]),
                                      (''role'', PStr ''user'')]]),
                     (''turn_complete'', PBool True)])])
   \<and> parse_client_message example_externals example_vertex_client PNone (Some False)
     = Inr (PDict [(''client_content'', PDict [(''turn_complete'', PBool True)])])"
proof -
  let ?item = "[(''role'', PStr ''user''), (''parts'', PList [PDict [(''text'', PStr ''hi'')]])]"
  have h: "''hi'' \<noteq> [] \<and> part_union example_externals (PStr ''hi'')
     \<and> construct example_externals Part [(''text'', PStr ''hi'')]
         = Some [(''text'', PStr ''hi'')]
     \<and> construct example_externals Content
          [(''role'', PStr ''user''), (''parts'', PList [PObj Part [(''text'', PStr ''hi'')]])]
         = Some [(''role'', PStr ''user''),
                 (''parts'', PList [PObj Part [(''text'', PStr ''hi'')]])]
     \<and> (if vertexai example_mldev_client = Some True
          then content_to_vertex example_externals else content_to_mldev example_externals)
          (PObj Content [(''role'', PStr ''user''),
                         (''parts'', PList [PObj Part [(''text'', PStr ''hi'')]])])
         = Inr ?item
     \<and> construct example_externals Content ?item = Some ?item
     \<and> map_of (model_dump example_externals Content ?item) ''parts''
         = Some (PList [PDict [(''text'', PStr ''hi'')]])"
    by (simp add: example_externals_def example_construct_def example_model_dump_def
        example_content_to_wire_def example_mldev_client_def)
  have r: "dict_get ?item ''role'' = PStr ''user''" "opt_bool (Some True) = PBool True"
    by (simp_all add: dict_get_def opt_bool_def)
  have n: "\<not> truthy PNone" by simp
  note T = parse_plain_string [where s = "''hi''" and X = example_externals
      and api_client = example_mldev_client and end_of_turn = "Some True"
      and text_part = "[(''text'', PStr ''hi'')]"
      and user_content = "[(''role'', PStr ''user''),
                           (''parts'', PList [PObj Part [(''text'', PStr ''hi'')]])]"
      and item = ?item and content_input = ?item]
  note U = parse_plain_string [where X = example_externals
      and api_client = example_vertex_client and end_of_turn = "Some False"
      and input = PNone]
  from T h r have 1: "parse_client_message example_externals example_mldev_client
      (PStr ''hi'') (Some True)
     = Inr (PDict [(''client_content'',
              PDict [(''turns'',
                        PList [PDict [(''parts'', PList [PDict [(''text'', PStr ''hi'')]]),
                                      (''role'', PStr ''user'')]]),
                     (''turn_complete'', PBool True)])])"
    by simp
  from U n have 2: "parse_client_message example_externals example_vertex_client PNone
      (Some False)
     = Inr (PDict [(''client_content'', PDict [(''turn_complete'', PBool True)])])"
    by blast
  from 1 2 show ?thesis by blast
qed

lemma function_response_dict_keys:
  assumes "has_key d ''name''" and "has_key d ''response''"
  shows "d \<noteq> []" and "is_function_response_dict (PDict d)"
  using assms by (auto simp: has_key_def is_function_response_dict_def)

text \<open>
  Claim C8, as amended. Take a mapping with the keys \<open>name\<close> and \<open>response\<close> and without
  the keys \<open>id\<close> and \<open>data\<close>. Under the direct personality the encoder raises the
  "requires an id" error. Under the cloud personality the result is the \<open>tool_response\<close>
  message with the one function response when the mapping validates as a
  \<open>FunctionResponse\<close>, and the "unsupported input" error when it does not. A mapping that
  has the key \<open>data\<close> is read as a media blob first and never raises "requires an id"
  (a dump of a blob has no \<open>name\<close> and \<open>response\<close> keys).
\<close>

theorem parse_tool_response_without_id:
  "(has_key d ''name'' \<and> has_key d ''response'' \<and> \<not> has_key d ''id''
      \<and> \<not> has_key d ''data'' \<and> vertexai api_client \<noteq> Some True
      \<longrightarrow> parse_client_message X api_client (PDict d) end_of_turn
            = Inl (ValueError FUNCTION_RESPONSE_REQUIRES_ID))
   \<and> (has_key d ''name'' \<and> has_key d ''response'' \<and> \<not> has_key d ''id''
      \<and> \<not> has_key d ''data'' \<and> vertexai api_client = Some True
      \<longrightarrow> parse_client_message X api_client (PDict d) end_of_turn
            = (case construct X FunctionResponse d of
                 None \<Rightarrow> Inl (UnsupportedInput (PDict d))
               | Some function_response \<Rightarrow>
                   Inr (PDict [(''tool_response'',
                          PDict [(''function_responses'',
                            PList [function_response_typeddict
                                     (model_dump X FunctionResponse function_response)])])])))
   \<and> (has_key d ''data''
        \<and> (\<forall>blob. \<not> is_function_response_dict (PDict (model_dump X Blob blob)))
      \<longrightarrow> parse_client_message X api_client (PDict d) end_of_turn
            \<noteq> Inl (ValueError FUNCTION_RESPONSE_REQUIRES_ID))"
proof (intro conjI impI)
  assume h: "has_key d ''name'' \<and> has_key d ''response'' \<and> \<not> has_key d ''id''
      \<and> \<not> has_key d ''data'' \<and> vertexai api_client \<noteq> Some True"
  then have "d \<noteq> []" using function_response_dict_keys by blast
  moreover have "format_input X api_client (PDict d)
      = Inl (ValueError FUNCTION_RESPONSE_REQUIRES_ID)"
    using h by (simp add: format_input_def)
  ultimately show "parse_client_message X api_client (PDict d) end_of_turn
            = Inl (ValueError FUNCTION_RESPONSE_REQUIRES_ID)"
    by (simp add: parse_client_message_def)
next
  assume h: "has_key d ''name'' \<and> has_key d ''response'' \<and> \<not> has_key d ''id''
      \<and> \<not> has_key d ''data'' \<and> vertexai api_client = Some True"
  then have ne: "d \<noteq> []" and fr: "is_function_response_dict (PDict d)"
    using function_response_dict_keys by blast+
  have fmt: "format_input X api_client (PDict d) = Inr (PList [PDict d])"
    using h by (simp add: format_input_def)
  have br: "tool_response_branch X api_client (PDict d) (PList [PDict d])
      = (case construct X FunctionResponse d of
                 None \<Rightarrow> Inl (UnsupportedInput (PDict d))
               | Some function_response \<Rightarrow>
                   Inr (PDict [(''tool_response'',
                          PDict [(''function_responses'',
                            PList [function_response_typeddict
                                     (model_dump X FunctionResponse function_response)])])]))"
    using h
    by (simp add: tool_response_branch_def items_of_def tool_response_message_def
        split: option.splits)
  show "parse_client_message X api_client (PDict d) end_of_turn
            = (case construct X FunctionResponse d of
                 None \<Rightarrow> Inl (UnsupportedInput (PDict d))
               | Some function_response \<Rightarrow>
                   Inr (PDict [(''tool_response'',
                          PDict [(''function_responses'',
                            PList [function_response_typeddict
                                     (model_dump X FunctionResponse function_response)])])]))"
    using ne fr fmt br
    by (simp add: parse_client_message_def is_sequence_def items_of_def)
next
  assume h: "has_key d ''data''
        \<and> (\<forall>blob. \<not> is_function_response_dict (PDict (model_dump X Blob blob)))"
  then have ne: "d \<noteq> []" by (auto simp: has_key_def)
  let ?req = "Inl (ValueError FUNCTION_RESPONSE_REQUIRES_ID) :: error + pyval"
  have dict: "dict_branch X (PDict d) d \<noteq> ?req"
    by (auto simp: dict_branch_def subscript_def split: option.splits if_splits)
  have seq: "realtime_sequence_branch X (PDict d) (PList [PDict dmp]) \<noteq> ?req" for dmp
    by (auto simp: realtime_sequence_branch_def items_of_def split: sum.splits)
  show "parse_client_message X api_client (PDict d) end_of_turn \<noteq> ?req"
  proof (cases "construct X Blob d")
    case None
    then show ?thesis
      using h ne by (simp add: parse_client_message_def format_input_def)
  next
    case (Some blob)
    show ?thesis
    proof (cases "is_bytes (dict_get blob ''data'')")
      case True
      then have "format_input X api_client (PDict d)
                  = Inr (PList [PDict (model_dump X Blob blob)])"
        using h Some by (simp add: format_input_def)
      then show ?thesis
        using h ne seq
        by (simp add: parse_client_message_def is_sequence_def items_of_def)
    next
      case False
      then have "format_input X api_client (PDict d) = Inr (PDict d)"
        using h Some by (simp add: format_input_def)
      then show ?thesis
        using ne dict by (simp add: parse_client_message_def is_sequence_def)
    qed
  qed
qed

lemma example_blob_dump:
  "\<not> is_function_response_dict (PDict (model_dump example_externals Blob blob))"
proof
  assume "is_function_response_dict (PDict (model_dump example_externals Blob blob))"
  then obtain v where "map_of (example_model_dump Blob blob) ''name'' = Some v"
    by (auto simp: is_function_response_dict_def has_key_def example_externals_def)
  then have "(''name'', v) \<in> set (example_model_dump Blob blob)"
    by (rule map_of_SomeD)
  then show False
    by (simp add: example_model_dump_def)
qed

theorem parse_tool_response_without_id_witness:
  "parse_client_message example_externals example_mldev_client
     (PDict example_function_response) (Some False)
     = Inl (ValueError FUNCTION_RESPONSE_REQUIRES_ID)
   \<and> parse_client_message example_externals example_vertex_client
     (PDict example_function_response) (Some False)
     = Inr (PDict [(''tool_response'',
              PDict [(''function_responses'',
                PList [PDict [(''name'', PStr ''get_weather''),
                              (''response'', PDict [(''result'', PStr ''sunny'')])]])])])
   \<and> parse_client_message example_externals example_mldev_client
     (PDict (example_function_response @ [(''data'', PBytes [1, 2, 3])])) (Some False)
     \<noteq> Inl (ValueError FUNCTION_RESPONSE_REQUIRES_ID)"
proof -
  have k: "has_key example_function_response ''name''
      \<and> has_key example_function_response ''response''
      \<and> \<not> has_key example_function_response ''id''
      \<and> \<not> has_key example_function_response ''data''"
    by (simp add: example_function_response_def has_key_def)
  have m: "vertexai example_mldev_client \<noteq> Some True"
    and v: "vertexai example_vertex_client = Some True"
    by (simp_all add: example_mldev_client_def example_vertex_client_def)
  have c: "construct example_externals FunctionResponse example_function_response
      = Some example_function_response"
    by (simp add: example_externals_def example_construct_def example_function_response_def)
  have dmp: "function_response_typeddict
      (model_dump example_externals FunctionResponse example_function_response)
      = PDict [(''name'', PStr ''get_weather''),
               (''response'', PDict [(''result'', PStr ''sunny'')])]"
    by (simp add: example_externals_def example_model_dump_def example_function_response_def
        function_response_typeddict_def dict_get_def)
  have kd: "has_key (example_function_response @ [(''data'', PBytes [1, 2, 3])]) ''data''"
    by (simp add: example_function_response_def has_key_def)
  have 1: "parse_client_message example_externals example_mldev_client
     (PDict example_function_response) (Some False)
     = Inl (ValueError FUNCTION_RESPONSE_REQUIRES_ID)"
    using parse_tool_response_without_id [where d = example_function_response
        and api_client = example_mldev_client and X = example_externals
        and end_of_turn = "Some False"] k m
    by blast
  have 2: "parse_client_message example_externals example_vertex_client
     (PDict example_function_response) (Some False)
     = Inr (PDict [(''tool_response'',
              PDict [(''function_responses'',
                PList [PDict [(''name'', PStr ''get_weather''),
                              (''response'', PDict [(''result'', PStr ''sunny'')])]])])])"
    using parse_tool_response_without_id [where d = example_function_response
        and api_client = example_vertex_client and X = example_externals
        and end_of_turn = "Some False"] k v c dmp
    by simp
  have 3: "parse_client_message example_externals example_mldev_client
     (PDict (example_function_response @ [(''data'', PBytes [1, 2, 3])])) (Some False)
     \<noteq> Inl (ValueError FUNCTION_RESPONSE_REQUIRES_ID)"
    using parse_tool_response_without_id
        [where d = "example_function_response @ [(''data'', PBytes [1, 2, 3])]"
        and api_client = example_mldev_client and X = example_externals
        and end_of_turn = "Some False"] kd example_blob_dump
    by blast
  from 1 2 3 show ?thesis by blast
qed

theorem parse_tool_response_without_id_counterexample:
  "parse_client_message example_externals example_mldev_client
     (PDict [(''name'', PStr ''get_weather''),
             (''response'', PDict [(''result'', PStr ''sunny'')]),
             (''data'', PBytes [1, 2, 3])]) (Some False)
     = Inl (UnsupportedInput
         (PDict [(''name'', PStr ''get_weather''),
                 (''response'', PDict [(''result'', PStr ''sunny'')]),
                 (''data'', PBytes [1, 2, 3])]))
   \<and> parse_client_message example_externals example_vertex_client
     (PDict [(''name'', PStr ''get_weather''),
             (''response'', PDict [(''result'', PStr ''sunny'')]),
             (''unknown_field'', PInt 1)]) (Some False)
     = Inl (UnsupportedInput
         (PDict [(''name'', PStr ''get_weather''),
                 (''response'', PDict [(''result'', PStr ''sunny'')]),
                 (''unknown_field'', PInt 1)]))"
  by (simp add: parse_client_message_def format_input_def example_externals_def
      example_construct_def has_key_def is_sequence_def items_of_def
      is_function_response_dict_def tool_response_branch_def
      example_mldev_client_def example_vertex_client_def)

end
